theory Spec2Isabelle
  imports Main
begin

text \<open>
  A shallow embedding of the client-side logic of the task board: the SLA badge, the
  bucket view and its order (kanban.js), the CSV export (archive.js), the traffic of
  the board with the backend (kanban.js), every other function of the five scripts
  that calls \<open>fetch\<close> (archive.js, circle.js, news.js, reports.js), and the audio
  player of the news page (news.js). The first half of the theory holds the model,
  function by function under the names of the source; the second half the properties.
\<close>

section \<open>JavaScript numbers as far as the board needs them\<close>

text \<open>
  Time values and day counts are integers; the only non-integer number the code can
  meet is NaN (the time value of an invalid Date, the result of arithmetic on a value
  that is not a number). Every comparison with NaN is false.
\<close>

datatype js_num = NaN | Num int

fun js_sub :: "js_num \<Rightarrow> js_num \<Rightarrow> js_num" where
  "js_sub (Num a) (Num b) = Num (a - b)"
| "js_sub _ _ = NaN"

fun js_gt :: "js_num \<Rightarrow> js_num \<Rightarrow> bool" where
  "js_gt (Num a) (Num b) = (a > b)"
| "js_gt _ _ = False"

fun js_ge :: "js_num \<Rightarrow> js_num \<Rightarrow> bool" where
  "js_ge (Num a) (Num b) = (a \<ge> b)"
| "js_ge _ _ = False"

fun js_le :: "js_num \<Rightarrow> js_num \<Rightarrow> bool" where
  "js_le (Num a) (Num b) = (a \<le> b)"
| "js_le _ _ = False"

text \<open>\<open>Math.floor(x / (1000 * 60 * 60 * 24))\<close> on a millisecond count.\<close>

definition MS_PER_DAY :: int where
  "MS_PER_DAY = 1000 * 60 * 60 * 24"

fun floor_days :: "js_num \<Rightarrow> js_num" where
  "floor_days (Num ms) = Num (ms div MS_PER_DAY)"
| "floor_days NaN = NaN"

section \<open>kanban.js: getSLAStatus\<close>

text \<open>
  The argument of \<open>getSLAStatus\<close> is \<open>task.received_at || task.created_at\<close>. What
  the function does with it depends on three cases only: the value is falsy (missing
  or empty), it is a string that \<open>new Date\<close> cannot read (time value NaN), or it is a
  date with a time value in milliseconds.
\<close>

datatype date_arg = Absent | Unparsable | Instant int

fun date_time :: "date_arg \<Rightarrow> js_num" where
  "date_time (Instant ms) = Num ms"
| "date_time _ = NaN"

datatype sla_label = NotAvailable | Today | DaysAgo js_num

record sla =
  sla_status :: string
  sla_color :: string
  sla_text :: sla_label
  daysElapsed :: js_num
  isOverdue :: bool

text \<open>
  \<open>now\<close> is the clock reading of \<open>new Date()\<close>, \<open>slaDays\<close> the module variable (the
  default 4, or \<open>parseInt(settings.sla_days)\<close>). The field \<open>fullDate\<close>, a
  locale-dependent rendering of the date, is left out.
\<close>

definition getSLAStatus :: "date_arg \<Rightarrow> int \<Rightarrow> js_num \<Rightarrow> sla" where
  "getSLAStatus receivedDateStr now slaDays =
     (if receivedDateStr = Absent then
        \<lparr>sla_status = ''Unknown'', sla_color = ''bg-gray-100 text-gray-600'',
         sla_text = NotAvailable, daysElapsed = Num 0, isOverdue = False\<rparr>
      else
        let diffTime = js_sub (Num now) (date_time receivedDateStr);
            days = floor_days diffTime;
            txt = (if js_le days (Num 0) then Today else DaysAgo days)
        in if js_gt days slaDays then
             \<lparr>sla_status = ''Overdue'', sla_color = ''bg-red-100 text-red-700 font-bold'',
              sla_text = txt, daysElapsed = days, isOverdue = True\<rparr>
           else if js_ge days (js_sub slaDays (Num 1)) then
             \<lparr>sla_status = ''At Risk'', sla_color = ''bg-orange-100 text-orange-700'',
              sla_text = txt, daysElapsed = days, isOverdue = False\<rparr>
           else
             \<lparr>sla_status = ''On Time'', sla_color = ''bg-green-100 text-green-700'',
              sla_text = txt, daysElapsed = days, isOverdue = False\<rparr>)"

section \<open>kanban.js: the task snapshot and renderTasks\<close>

text \<open>
  A task as the board reads it from the JSON of \<open>GET /api/tasks\<close>. Strings are kept as
  strings: the code compares them with \<open>===\<close> against literals and accepts any value.
  A missing text field is the empty string (both are falsy).
\<close>

record task =
  task_id :: int
  status :: string
  triage_category :: string
  priority :: string
  project :: string
  sender :: string
  created_at :: date_arg
  received_at :: date_arg
  reply_acknowledge :: string
  reply_done :: string
  reply_delegate :: string
  suggested_reply :: string

record cols =
  quick :: "task list"
  deep :: "task list"
  waiting :: "task list"
  todo :: "task list"
  doing :: "task list"
  paused :: "task list"

definition empty_cols :: cols where
  "empty_cols = \<lparr>quick = [], deep = [], waiting = [], todo = [], doing = [], paused = []\<rparr>"

text \<open>
  A filter value is \<open>document.getElementById(...)?.value\<close>: \<open>None\<close> when the select
  element is missing, else its string. It filters only when it is truthy.
\<close>

fun truthy :: "string option \<Rightarrow> bool" where
  "truthy None = False"
| "truthy (Some v) = (v \<noteq> [])"

text \<open>The body of \<open>tasks.forEach\<close> in \<open>renderTasks\<close>, each \<open>return\<close> a branch.\<close>

definition place :: "string option \<Rightarrow> string option \<Rightarrow> cols \<Rightarrow> task \<Rightarrow> cols" where
  "place filterProject filterSender c t =
     (if status t = ''closed'' \<or> status t = ''archived'' then c
      else if truthy filterProject \<and> Some (project t) \<noteq> filterProject then c
      else if truthy filterSender \<and> Some (sender t) \<noteq> filterSender then c
      else
        let c1 = (if triage_category t = ''waiting_for'' then c\<lparr>waiting := waiting c @ [t]\<rparr>
                  else if triage_category t = ''quick_action'' then c\<lparr>quick := quick c @ [t]\<rparr>
                  else if triage_category t = ''deep_work'' then c\<lparr>deep := deep c @ [t]\<rparr>
                  else c\<lparr>deep := deep c @ [t]\<rparr>)
        in if status t = ''new'' then c1\<lparr>todo := todo c1 @ [t]\<rparr>
           else if status t = ''in_progress'' then c1\<lparr>doing := doing c1 @ [t]\<rparr>
           else if status t = ''paused'' then c1\<lparr>paused := paused c1 @ [t]\<rparr>
           else c1)"

subsection \<open>sortFn\<close>

text \<open>
  \<open>pMap[a.priority]\<close> is a property read on the object literal
  \<open>{high:3, medium:2, low:1}\<close>. A property read follows the prototype chain, so a key
  that names a member of \<open>Object.prototype\<close> finds that member (a function, or for
  \<open>__proto__\<close> the prototype object) instead of \<open>undefined\<close>.
\<close>

datatype js_val = Number int | Inherited string

definition object_prototype_keys :: "string list" where
  "object_prototype_keys =
     [''constructor'', ''hasOwnProperty'', ''isPrototypeOf'', ''propertyIsEnumerable'',
      ''toLocaleString'', ''toString'', ''valueOf'', ''__defineGetter__'',
      ''__defineSetter__'', ''__lookupGetter__'', ''__lookupSetter__'', ''__proto__'']"

definition pMap :: "string \<Rightarrow> js_val option" where
  "pMap k =
     (if k = ''high'' then Some (Number 3)
      else if k = ''medium'' then Some (Number 2)
      else if k = ''low'' then Some (Number 1)
      else if k \<in> set object_prototype_keys then Some (Inherited k)
      else None)"

text \<open>\<open>pMap[p] || 1\<close>: every value the read can find is truthy, \<open>undefined\<close> is not.\<close>

definition rank :: "string \<Rightarrow> js_val" where
  "rank p = (case pMap p of None \<Rightarrow> Number 1 | Some v \<Rightarrow> v)"

text \<open>\<open>pB - pA\<close>: a function or an object converts to NaN.\<close>

fun js_val_sub :: "js_val \<Rightarrow> js_val \<Rightarrow> js_num" where
  "js_val_sub (Number a) (Number b) = Num (a - b)"
| "js_val_sub _ _ = NaN"

definition sortFn :: "task \<Rightarrow> task \<Rightarrow> js_num" where
  "sortFn a b =
     (let pA = rank (priority a); pB = rank (priority b)
      in if pA \<noteq> pB then js_val_sub pB pA
         else js_sub (date_time (created_at b)) (date_time (created_at a)))"

subsection \<open>Array.prototype.sort\<close>

text \<open>
  ECMAScript (2019 and later) specifies \<open>sort\<close> as stable, reads a comparator result of
  NaN as \<open>+0\<close>, and fixes the result whenever the comparator is consistent on the
  elements sorted; for an inconsistent comparator the order is left to the engine. The
  model is a stable insertion sort: the specified result in the first case, one
  admissible result in the second.
\<close>

definition SortCompare :: "('a \<Rightarrow> 'a \<Rightarrow> js_num) \<Rightarrow> 'a \<Rightarrow> 'a \<Rightarrow> int" where
  "SortCompare comparefn x y = (case comparefn x y of NaN \<Rightarrow> 0 | Num v \<Rightarrow> v)"

fun insert_by :: "('a \<Rightarrow> 'a \<Rightarrow> js_num) \<Rightarrow> 'a \<Rightarrow> 'a list \<Rightarrow> 'a list" where
  "insert_by c x [] = [x]"
| "insert_by c x (y # ys) =
     (if SortCompare c x y \<le> 0 then x # y # ys else y # insert_by c x ys)"

fun array_sort :: "('a \<Rightarrow> 'a \<Rightarrow> js_num) \<Rightarrow> 'a list \<Rightarrow> 'a list" where
  "array_sort c [] = []"
| "array_sort c (x # xs) = insert_by c x (array_sort c xs)"

subsection \<open>renderTasks\<close>

text \<open>
  The six buckets \<open>renderTasks\<close> computes and then writes to the page (the counters
  show their lengths, the cards of the current view their elements in order).
\<close>

definition renderTasks :: "task list \<Rightarrow> string option \<Rightarrow> string option \<Rightarrow> cols" where
  "renderTasks tasks filterProject filterSender =
     (let c = foldl (place filterProject filterSender) empty_cols tasks
      in \<lparr>quick = array_sort sortFn (quick c), deep = array_sort sortFn (deep c),
          waiting = array_sort sortFn (waiting c), todo = array_sort sortFn (todo c),
          doing = array_sort sortFn (doing c), paused = array_sort sortFn (paused c)\<rparr>)"

subsection \<open>Vocabulary for the properties of renderTasks\<close>

text \<open>
  A task reaches the bucket assignments when none of the three early returns of the
  loop body fires.
\<close>

definition passes :: "string option \<Rightarrow> string option \<Rightarrow> task \<Rightarrow> bool" where
  "passes fp fs t \<longleftrightarrow>
     status t \<noteq> ''closed'' \<and> status t \<noteq> ''archived''
     \<and> (truthy fp \<longrightarrow> Some (project t) = fp)
     \<and> (truthy fs \<longrightarrow> Some (sender t) = fs)"

text \<open>
  The statuses a task can have: the five that kanban.js and archive.js test for or
  write (\<open>renderTasks\<close>, \<open>createTaskCard\<close>, \<open>updateTaskStatus\<close>, \<open>reopenTask\<close>).
\<close>

definition task_statuses :: "string list" where
  "task_statuses = [''new'', ''in_progress'', ''paused'', ''closed'', ''archived'']"

text \<open>How many of the three executive buckets, and of the three kanban buckets, hold a task.\<close>

definition exec_buckets_holding :: "cols \<Rightarrow> task \<Rightarrow> nat" where
  "exec_buckets_holding c t = length (filter (\<lambda>b. t \<in> set b) [quick c, deep c, waiting c])"

definition kanban_buckets_holding :: "cols \<Rightarrow> task \<Rightarrow> nat" where
  "kanban_buckets_holding c t = length (filter (\<lambda>b. t \<in> set b) [todo c, doing c, paused c])"

text \<open>
  The priority rank in the words of the specification: \<open>high\<close> is 3, \<open>medium\<close> is 2,
  \<open>low\<close> and every unrecognized value 1. The code's own reading is \<open>rank\<close>.
\<close>

definition spec_rank :: "string \<Rightarrow> int" where
  "spec_rank p = (if p = ''high'' then 3 else if p = ''medium'' then 2 else 1)"

definition created_ms :: "task \<Rightarrow> int" where
  "created_ms t = (case created_at t of Instant ms \<Rightarrow> ms | _ \<Rightarrow> 0)"

text \<open>
  \<open>ordered a b\<close>: \<open>a\<close> may stand before \<open>b\<close> in a bucket sorted by rank descending, then
  by creation time descending.
\<close>

definition ordered :: "task \<Rightarrow> task \<Rightarrow> bool" where
  "ordered a b \<longleftrightarrow>
     spec_rank (priority a) > spec_rank (priority b)
     \<or> (spec_rank (priority a) = spec_rank (priority b) \<and> created_ms a \<ge> created_ms b)"

text \<open>
  A task whose priority does not name a member of \<open>Object.prototype\<close> and whose
  \<open>created_at\<close> is a readable date.
\<close>

definition well_keyed :: "task \<Rightarrow> bool" where
  "well_keyed t \<longleftrightarrow>
     priority t \<notin> set object_prototype_keys \<and> (\<exists>ms. created_at t = Instant ms)"

subsection \<open>Sample tasks\<close>

definition blank_task :: task where
  "blank_task =
     \<lparr>task_id = 0, status = ''new'', triage_category = ''deep_work'', priority = ''low'',
      project = ''Metro'', sender = ''ops@example.org'', created_at = Instant 0,
      received_at = Absent, reply_acknowledge = [], reply_done = [], reply_delegate = [],
      suggested_reply = []\<rparr>"

definition task_closed :: task where
  "task_closed = blank_task\<lparr>task_id := 3, status := ''closed''\<rparr>"

definition task_archived :: task where
  "task_archived = blank_task\<lparr>task_id := 4, status := ''archived''\<rparr>"

definition task_paused :: task where
  "task_paused = blank_task\<lparr>task_id := 5, status := ''paused'', triage_category := ''review''\<rparr>"

definition task_inherited :: task where
  "task_inherited = blank_task\<lparr>task_id := 1, priority := ''constructor''\<rparr>"

definition task_high :: task where
  "task_high = blank_task\<lparr>task_id := 2, priority := ''high''\<rparr>"

section \<open>archive.js: escapeCSV\<close>

definition DQUOTE :: char where
  "DQUOTE = CHR 0x22"

definition COMMA :: char where
  "COMMA = CHR 0x2C"

definition LF :: char where
  "LF = CHR 0x0A"

definition CR :: char where
  "CR = CHR 0x0D"

text \<open>
  \<open>String(str).replace(/(\r\n|\n|\r)/gm, ' ')\<close>: scanning from the left, a carriage
  return followed by a line feed becomes one space, a lone line feed or carriage return
  becomes one space.
\<close>

fun replace_newlines :: "string \<Rightarrow> string" where
  "replace_newlines [] = []"
| "replace_newlines [c] = (if c = CR \<or> c = LF then '' '' else [c])"
| "replace_newlines (c # d # cs) =
     (if c = CR \<and> d = LF then CHR '' '' # replace_newlines cs
      else if c = LF \<or> c = CR then CHR '' '' # replace_newlines (d # cs)
      else c # replace_newlines (d # cs))"

text \<open>\<open>newStr.replace(/"/g, '""')\<close>.\<close>

fun double_quotes :: "string \<Rightarrow> string" where
  "double_quotes [] = []"
| "double_quotes (c # cs) =
     (if c = DQUOTE then DQUOTE # DQUOTE # double_quotes cs else c # double_quotes cs)"

text \<open>
  The helper inside \<open>exportToCSV\<close>. A falsy field (missing or empty) is written as
  two quotes.
\<close>

definition escapeCSV :: "string \<Rightarrow> string" where
  "escapeCSV str =
     (if str = [] then [DQUOTE, DQUOTE]
      else
        let newStr = replace_newlines str
        in if COMMA \<in> set newStr then [DQUOTE] @ double_quotes newStr @ [DQUOTE]
           else newStr)"

text \<open>A field with quotes and no comma: \<open>The "blue" line\<close>.\<close>

definition quoted_field :: string where
  "quoted_field = ''The '' @ [DQUOTE] @ ''blue'' @ [DQUOTE] @ '' line''"

section \<open>The board's traffic with the backend\<close>

text \<open>
  The asynchronous functions of the scripts are modelled as state transformers over
  the page. What they do to the outside is written to a log, in the order in which it
  happens: each \<open>fetch\<close> with the outcome it will have, each message shown, each
  replacement of the snapshot. The backend is a parameter \<open>net\<close>: the outcome of the
  \<open>n\<close>-th request the page issues. A function of the model is the source function run
  from its call to its end, with each awaited response taken from \<open>net\<close>; \<open>sendReply\<close>,
  which reads a module variable after its \<open>await\<close> that other handlers write, is also
  given in its two halves, before and after the \<open>await\<close>. The page elements the
  functions look up (task modal, reply box, delete modal, message container) are taken
  to exist, and response bodies to be readable JSON. Text is held as its UTF-8 bytes.
  The requests of the task board proper have constructors of their own; every other
  request is named by its method and route, an id in a route written \<open>{id}\<close>. The
  module variables of archive.js, circle.js, news.js and reports.js, which only
  success branches write, are left out.
\<close>

datatype payload =
    StatusUpdate string
  | CategoryUpdate string
  | Delegation string "string option"

datatype request =
    GetTasks
  | PutTask int payload
  | DeleteTask int
  | PostReply int string "string option"
  | GetCircle string
  | GetReportsList
  | PostReport bool string string
  | Http string string

text \<open>
  What the code reads of a response apart from \<open>ok\<close>: the status line, whether the
  content type is JSON, and the fields of the JSON body that the functions look at (a
  missing field is the empty string). \<open>body_sla_days\<close> is \<open>parseInt(settings.sla_days)\<close>
  when \<open>settings.sla_days\<close> is truthy, \<open>None\<close> otherwise.
\<close>

record body =
  http_status :: string
  http_status_text :: string
  is_json :: bool
  body_tasks :: "task list"
  body_error :: string
  body_url :: string
  body_message :: string
  body_scanned :: string
  body_summary_status :: string
  body_sla_days :: "js_num option"

datatype response =
    NetworkError string
  | Response bool body

datatype event =
    Fetch request response
  | SnapshotReplaced "task list"
  | Render "task list"
  | Message string string nat
  | Alert string
  | InlineError string
  | ConsoleError string
  | Uncaught string
  | WindowOpen string
  | Timer nat

record browser =
  sent :: nat
  log :: "event list"

record contact =
  name :: "string option"
  email :: string

record page = browser +
  allTasks :: "task list"
  selectedReplyType :: "string option"
  selectedDelegate :: "contact option"
  pendingTaskUpdate :: "payload option"
  currentTaskId :: "int option"
  modalTaskReply :: string
  deleteModalId :: "int option"
  isSyncing :: bool
  slaDays_var :: js_num

text \<open>
  The module's initial values, on a freshly loaded page. \<open>slaDays_var\<close> is the module
  variable \<open>slaDays\<close>, which \<open>getSLAStatus\<close> above takes as a parameter.
\<close>

definition initial_page :: page where
  "initial_page =
     \<lparr>sent = 0, log = [], allTasks = [], selectedReplyType = None, selectedDelegate = None,
      pendingTaskUpdate = None, currentTaskId = None, modalTaskReply = [], deleteModalId = None,
      isSyncing = False, slaDays_var = Num 4\<rparr>"

definition emit :: "event \<Rightarrow> 'a browser_scheme \<Rightarrow> 'a browser_scheme" where
  "emit e p = p\<lparr>log := log p @ [e]\<rparr>"

text \<open>
  \<open>showMessage\<close> appends the message to the container and removes it with
  \<open>setTimeout(..., 3000)\<close>.
\<close>

definition showMessage :: "string \<Rightarrow> string \<Rightarrow> 'a browser_scheme \<Rightarrow> 'a browser_scheme" where
  "showMessage message kind p = emit (Message message kind 3000) p"

definition fetch ::
  "(nat \<Rightarrow> response) \<Rightarrow> request \<Rightarrow> 'a browser_scheme \<Rightarrow> response \<times> 'a browser_scheme" where
  "fetch net rq p =
     (net (sent p), p\<lparr>sent := Suc (sent p), log := log p @ [Fetch rq (net (sent p))]\<rparr>)"

subsection \<open>getTasks\<close>

text \<open>
  The part of \<open>getTasks\<close> after \<open>await fetch('/api/tasks')\<close>. Callers that do not await
  \<open>getTasks()\<close> run their own next statements between the request and this part.
\<close>

definition getTasks_settle :: "response \<Rightarrow> page \<Rightarrow> page" where
  "getTasks_settle r p =
     (case r of
        NetworkError m \<Rightarrow> showMessage m ''error'' p
      | Response ok b \<Rightarrow>
          if \<not> ok then showMessage ''Failed to fetch tasks'' ''error'' p
          else emit (Render (body_tasks b))
                 (emit (SnapshotReplaced (body_tasks b)) (p\<lparr>allTasks := body_tasks b\<rparr>)))"

definition getTasks :: "(nat \<Rightarrow> response) \<Rightarrow> page \<Rightarrow> page" where
  "getTasks net p = (case fetch net GetTasks p of (r, p1) \<Rightarrow> getTasks_settle r p1)"

subsection \<open>updateTask and its callers\<close>

definition updateTask :: "(nat \<Rightarrow> response) \<Rightarrow> int \<Rightarrow> payload \<Rightarrow> page \<Rightarrow> page" where
  "updateTask net i payload p =
     (case fetch net (PutTask i payload) p of (r, p1) \<Rightarrow>
        (case r of
           NetworkError m \<Rightarrow> showMessage m ''error'' (emit (ConsoleError ''Update error:'') p1)
         | Response ok b \<Rightarrow>
             if \<not> ok then
               showMessage ''Failed to update task'' ''error''
                 (emit (ConsoleError ''Update error:'') p1)
             else showMessage ''Task updated'' ''success'' (getTasks net p1)))"

text \<open>
  The id argument of \<open>updateTaskStatus\<close> and \<open>updateTaskCategory\<close>: the number written
  into a card's \<open>onclick\<close> or handed on by the modal, or the text \<open>handleDrop\<close> reads from
  the drag data (never empty: \<open>handleDrop\<close> returns on empty data). The number 0 is
  falsy, a non-empty text is not. An id read from a \<open>dataset\<close> is text as well and is
  kept as the integer it denotes, \<open>None\<close> when the attribute is missing.
\<close>

datatype id_arg = NumberId int | TextId int

fun given_id :: "id_arg option \<Rightarrow> int option" where
  "given_id None = None"
| "given_id (Some (NumberId i)) = (if i = 0 then None else Some i)"
| "given_id (Some (TextId i)) = Some i"

text \<open>\<open>const id = taskId || (modal ? modal.dataset.currentTaskId : null); if (!id) return;\<close>\<close>

definition updateTaskStatus ::
  "(nat \<Rightarrow> response) \<Rightarrow> string \<Rightarrow> id_arg option \<Rightarrow> page \<Rightarrow> page" where
  "updateTaskStatus net newStatus taskId p =
     (case (case given_id taskId of None \<Rightarrow> currentTaskId p | Some i \<Rightarrow> Some i) of
        None \<Rightarrow> p
      | Some i \<Rightarrow> updateTask net i (StatusUpdate newStatus) p)"

text \<open>\<open>if (!taskId) return;\<close>\<close>

definition updateTaskCategory ::
  "(nat \<Rightarrow> response) \<Rightarrow> string \<Rightarrow> id_arg option \<Rightarrow> page \<Rightarrow> page" where
  "updateTaskCategory net newCategory taskId p =
     (case given_id taskId of
        None \<Rightarrow> p
      | Some i \<Rightarrow> updateTask net i (CategoryUpdate newCategory) p)"

subsection \<open>Deleting a task\<close>

definition openDeleteModal :: "int \<Rightarrow> page \<Rightarrow> page" where
  "openDeleteModal i p = p\<lparr>deleteModalId := Some i\<rparr>"

text \<open>
  \<open>confirmDelete\<close> awaits the \<open>DELETE\<close> outside any \<open>try\<close>: a rejected fetch ends the
  function with an unhandled rejection. A response, whatever its status, is not
  inspected.
\<close>

definition confirmDelete :: "(nat \<Rightarrow> response) \<Rightarrow> page \<Rightarrow> page" where
  "confirmDelete net p =
     (case deleteModalId p of
        None \<Rightarrow> p
      | Some i \<Rightarrow>
          (case fetch net (DeleteTask i) p of (r, p1) \<Rightarrow>
             (case r of
                NetworkError m \<Rightarrow> emit (Uncaught m) p1
              | Response ok b \<Rightarrow>
                  (case fetch net GetTasks p1 of (r2, p2) \<Rightarrow>
                     getTasks_settle r2 (showMessage ''Deleted'' ''success'' p2)))))"

subsection \<open>The task modal, reply drafts and delegation\<close>

text \<open>\<open>allTasks.find(x => x.id === id)\<close>.\<close>

fun find_task :: "task list \<Rightarrow> int \<Rightarrow> task option" where
  "find_task [] i = None"
| "find_task (t # ts) i = (if task_id t = i then Some t else find_task ts i)"

definition openTaskModal :: "int \<Rightarrow> page \<Rightarrow> page" where
  "openTaskModal i p =
     (case find_task (allTasks p) i of
        None \<Rightarrow> p
      | Some t \<Rightarrow>
          p\<lparr>selectedReplyType := None, pendingTaskUpdate := None, currentTaskId := Some i,
            modalTaskReply :=
              (if reply_acknowledge t \<noteq> [] then reply_acknowledge t else suggested_reply t)\<rparr>)"

text \<open>
  \<open>searchContacts\<close> catches a failure and only writes it to the console.
\<close>

definition searchContacts :: "(nat \<Rightarrow> response) \<Rightarrow> string \<Rightarrow> page \<Rightarrow> page" where
  "searchContacts net query p =
     (case fetch net (GetCircle query) p of (r, p1) \<Rightarrow>
        (case r of
           NetworkError m \<Rightarrow> emit (ConsoleError ''Search failed'') p1
         | Response ok b \<Rightarrow> p1))"

definition openDelegateModal :: "(nat \<Rightarrow> response) \<Rightarrow> page \<Rightarrow> page" where
  "openDelegateModal net p = searchContacts net [] (p\<lparr>selectedDelegate := None\<rparr>)"

definition selectContact :: "contact \<Rightarrow> page \<Rightarrow> page" where
  "selectContact c p = p\<lparr>selectedDelegate := Some c\<rparr>"

text \<open>
  \<open>copyReply(taskId, type)\<close>; \<open>taskId\<close> is \<open>None\<close> when \<open>parseInt\<close> gives NaN.
\<close>

definition copyReply :: "(nat \<Rightarrow> response) \<Rightarrow> int option \<Rightarrow> string \<Rightarrow> page \<Rightarrow> page" where
  "copyReply net taskId ty p =
     (case taskId of
        None \<Rightarrow> p
      | Some i \<Rightarrow>
          (case find_task (allTasks p) i of
             None \<Rightarrow> p
           | Some task \<Rightarrow>
               let p1 = p\<lparr>selectedReplyType := Some ty, pendingTaskUpdate := None\<rparr>
               in if ty = ''delegate'' then openDelegateModal net p1
                  else
                    let text0 = (if ty = ''acknowledge'' then reply_acknowledge task
                                 else if ty = ''done'' then reply_done task
                                 else []);
                        text1 = (if text0 = [] \<and> ty = ''acknowledge'' \<and> suggested_reply task \<noteq> []
                                 then suggested_reply task else text0)
                    in if text1 = [] then
                         showMessage ''No reply generated for this option.'' ''error'' p1
                       else
                         showMessage (''Draft updated for '' @ [CHR 0x27] @ ty @ [CHR 0x27]) ''success''
                           (p1\<lparr>modalTaskReply := text1\<rparr>)))"

text \<open>\<open>name.split(' ')[0]\<close>.\<close>

definition first_word :: "string \<Rightarrow> string" where
  "first_word s = takeWhile (\<lambda>c. c \<noteq> CHR '' '') s"

text \<open>
  \<open>confirmDelegation\<close>. When the task has no delegation draft and the contact has no
  name, \<open>selectedDelegate.name.split\<close> throws before anything is staged.
\<close>

definition confirmDelegation :: "page \<Rightarrow> page" where
  "confirmDelegation p =
     (case selectedDelegate p of
        None \<Rightarrow> emit (ConsoleError ''[Kanban] No delegate selected.'') p
      | Some c \<Rightarrow>
          (case currentTaskId p of
             None \<Rightarrow> showMessage ''Error: No active task selected.'' ''error'' p
           | Some i \<Rightarrow>
               let baseText = (case find_task (allTasks p) i of
                                 None \<Rightarrow> []
                               | Some t \<Rightarrow> reply_delegate t)
               in if baseText = [] \<and> name c = None then emit (Uncaught ''TypeError'') p
                  else
                    let replyText =
                          (if baseText \<noteq> [] then baseText
                           else ''Hi '' @ first_word (case name c of None \<Rightarrow> [] | Some n \<Rightarrow> n)
                                @ '','' @ [LF, LF]
                                @ ''Please handle this request. Let me know if you need any guidance.''
                                @ [LF, LF] @ ''Thanks,'')
                    in showMessage
                         (''Draft created for ''
                          @ (case name c of None \<Rightarrow> ''undefined'' | Some n \<Rightarrow> n)
                          @ ''. Send email to finalize delegation.'') ''success''
                         (p\<lparr>modalTaskReply := replyText,
                            pendingTaskUpdate := Some (Delegation ''waiting_for'' (name c))\<rparr>)))"

subsection \<open>sendReply\<close>

text \<open>
  \<open>!replyEl.value.trim()\<close>: the text is empty or consists of white space and line
  terminators only. These are, in ECMAScript, the code points 9 to 13, 32, 160 (no-break
  space), 5760, 8192 to 8202, 8232, 8233, 8239, 8287, 12288 and 65279; below, their
  UTF-8 encodings of one, two and three bytes.
\<close>

definition white_space_1 :: "char list" where
  "white_space_1 = [CHR 0x09, CHR 0x0A, CHR 0x0B, CHR 0x0C, CHR 0x0D, CHR 0x20]"

definition white_space_2 :: "string list" where
  "white_space_2 = [[CHR 0xC2, CHR 0xA0]]"

definition white_space_3 :: "string list" where
  "white_space_3 =
     [[CHR 0xE1, CHR 0x9A, CHR 0x80],
      [CHR 0xE2, CHR 0x80, CHR 0x80], [CHR 0xE2, CHR 0x80, CHR 0x81],
      [CHR 0xE2, CHR 0x80, CHR 0x82], [CHR 0xE2, CHR 0x80, CHR 0x83],
      [CHR 0xE2, CHR 0x80, CHR 0x84], [CHR 0xE2, CHR 0x80, CHR 0x85],
      [CHR 0xE2, CHR 0x80, CHR 0x86], [CHR 0xE2, CHR 0x80, CHR 0x87],
      [CHR 0xE2, CHR 0x80, CHR 0x88], [CHR 0xE2, CHR 0x80, CHR 0x89],
      [CHR 0xE2, CHR 0x80, CHR 0x8A],
      [CHR 0xE2, CHR 0x80, CHR 0xA8], [CHR 0xE2, CHR 0x80, CHR 0xA9],
      [CHR 0xE2, CHR 0x80, CHR 0xAF], [CHR 0xE2, CHR 0x81, CHR 0x9F],
      [CHR 0xE3, CHR 0x80, CHR 0x80], [CHR 0xEF, CHR 0xBB, CHR 0xBF]]"

fun blank :: "string \<Rightarrow> bool" where
  "blank [] = True"
| "blank [a] = (a \<in> set white_space_1)"
| "blank [a, b] = (if a \<in> set white_space_1 then blank [b] else [a, b] \<in> set white_space_2)"
| "blank (a # b # c # r) =
     (if a \<in> set white_space_1 then blank (b # c # r)
      else if [a, b] \<in> set white_space_2 then blank (c # r)
      else [a, b, c] \<in> set white_space_3 \<and> blank r)"

definition sendReply :: "(nat \<Rightarrow> response) \<Rightarrow> page \<Rightarrow> page" where
  "sendReply net p =
     (case currentTaskId p of
        None \<Rightarrow> showMessage ''Error: Task ID missing'' ''error'' p
      | Some i \<Rightarrow>
          if blank (modalTaskReply p) then showMessage ''Please enter a reply text.'' ''error'' p
          else
            (case fetch net (PostReply i (modalTaskReply p) (selectedReplyType p)) p of (r, p1) \<Rightarrow>
               (case r of
                  NetworkError m \<Rightarrow> showMessage m ''error'' p1
                | Response ok b \<Rightarrow>
                    if \<not> ok then
                      showMessage
                        (if body_error b \<noteq> [] then body_error b else ''Failed to send email'')
                        ''error'' p1
                    else
                      let p2 = (case pendingTaskUpdate p1 of
                                  None \<Rightarrow> p1
                                | Some u \<Rightarrow> (updateTask net i u p1)\<lparr>pendingTaskUpdate := None\<rparr>)
                      in (case fetch net GetTasks p2 of (r3, p3) \<Rightarrow>
                            getTasks_settle r3
                              (showMessage ''Email sent successfully!'' ''success'' p3)))))"

text \<open>
  \<open>sendReply\<close> in its two halves. The first runs to \<open>await fetch\<close> and hands on the
  task id it has read (\<open>const id\<close>) with the response that will arrive; the second runs
  when the response arrives, on the page as the handlers that ran in between have left
  it: \<open>pendingTaskUpdate\<close> is read there.
\<close>

definition sendReply_begin ::
  "(nat \<Rightarrow> response) \<Rightarrow> page \<Rightarrow> page \<times> (int \<times> response) option" where
  "sendReply_begin net p =
     (case currentTaskId p of
        None \<Rightarrow> (showMessage ''Error: Task ID missing'' ''error'' p, None)
      | Some i \<Rightarrow>
          if blank (modalTaskReply p) then
            (showMessage ''Please enter a reply text.'' ''error'' p, None)
          else
            (case fetch net (PostReply i (modalTaskReply p) (selectedReplyType p)) p of (r, p1) \<Rightarrow>
               (p1, Some (i, r))))"

definition sendReply_resume :: "(nat \<Rightarrow> response) \<Rightarrow> int \<Rightarrow> response \<Rightarrow> page \<Rightarrow> page" where
  "sendReply_resume net i r p1 =
     (case r of
        NetworkError m \<Rightarrow> showMessage m ''error'' p1
      | Response ok b \<Rightarrow>
          if \<not> ok then
            showMessage
              (if body_error b \<noteq> [] then body_error b else ''Failed to send email'')
              ''error'' p1
          else
            let p2 = (case pendingTaskUpdate p1 of
                        None \<Rightarrow> p1
                      | Some u \<Rightarrow> (updateTask net i u p1)\<lparr>pendingTaskUpdate := None\<rparr>)
            in (case fetch net GetTasks p2 of (r3, p3) \<Rightarrow>
                  getTasks_settle r3
                    (showMessage ''Email sent successfully!'' ''success'' p3)))"

subsection \<open>User actions on the board\<close>

text \<open>
  One user action, taken with its requests answered before anything else happens on
  the page.
\<close>

datatype action =
    Refresh
  | OpenTaskModal int
  | CopyReply "int option" string
  | SearchContacts string
  | SelectContact contact
  | ConfirmDelegation
  | EditReply string
  | SendReply
  | UpdateTaskStatus string "id_arg option"
  | UpdateTaskCategory string "id_arg option"
  | OpenDeleteModal int
  | ConfirmDelete

fun step :: "(nat \<Rightarrow> response) \<Rightarrow> page \<Rightarrow> action \<Rightarrow> page" where
  "step net p Refresh = getTasks net p"
| "step net p (OpenTaskModal i) = openTaskModal i p"
| "step net p (CopyReply taskId ty) = copyReply net taskId ty p"
| "step net p (SearchContacts q) = searchContacts net q p"
| "step net p (SelectContact c) = selectContact c p"
| "step net p ConfirmDelegation = confirmDelegation p"
| "step net p (EditReply s) = p\<lparr>modalTaskReply := s\<rparr>"
| "step net p SendReply = sendReply net p"
| "step net p (UpdateTaskStatus s taskId) = updateTaskStatus net s taskId p"
| "step net p (UpdateTaskCategory c taskId) = updateTaskCategory net c taskId p"
| "step net p (OpenDeleteModal i) = openDeleteModal i p"
| "step net p ConfirmDelete = confirmDelete net p"

section \<open>reports.js: generateReport\<close>



section \<open>The other fetch call sites\<close>

text \<open>
  The remaining functions that call \<open>fetch\<close>, each with its \<open>try\<close>, \<open>catch\<close> and \<open>finally\<close>.
  Where a function writes an error into the page, the log has \<open>InlineError\<close> with the
  text of the element that carries it; what a function renders on success is not
  logged, and the body of an ok response is taken to have the shape the function
  expects. The answer to a \<open>confirm\<close> dialog is a parameter. A call that is not awaited
  and is the caller's last statement runs as a call at the caller's end.
\<close>

subsection \<open>kanban.js\<close>








subsection \<open>archive.js\<close>





subsection \<open>circle.js: contacts\<close>









subsection \<open>circle.js: approvals\<close>





subsection \<open>news.js\<close>




section \<open>The fetch call sites\<close>



subsection \<open>Vocabulary for the properties of the traffic\<close>

text \<open>What an action adds to the log, the requests among it, and those that change the backend.\<close>

definition new_events :: "'a browser_scheme \<Rightarrow> 'b browser_scheme \<Rightarrow> event list" where
  "new_events p p' = drop (length (log p)) (log p')"

fun requests :: "event list \<Rightarrow> request list" where
  "requests [] = []"
| "requests (Fetch rq r # es) = rq # requests es"
| "requests (e # es) = requests es"





fun ok :: "response \<Rightarrow> bool" where
  "ok (Response b bd) = b"
| "ok (NetworkError m) = False"


text \<open>A \<open>PUT\<close> whose body has the shape of a staged delegation.\<close>

fun is_staged_put :: "event \<Rightarrow> bool" where
  "is_staged_put (Fetch (PutTask i (Delegation c d)) r) = True"
| "is_staged_put e = False"

text \<open>
  \<open>reply_succeeded_for prev e\<close>: the event before the \<open>PUT\<close> \<open>e\<close> is the reply \<open>POST\<close> for
  the same task, answered with an ok status.
\<close>

fun reply_succeeded_for :: "event option \<Rightarrow> event \<Rightarrow> bool" where
  "reply_succeeded_for (Some (Fetch (PostReply i b ty) (Response True bd))) (Fetch (PutTask j u) r) =
     (i = j)"
| "reply_succeeded_for prev e = False"

fun follows_reply :: "event option \<Rightarrow> event list \<Rightarrow> bool" where
  "follows_reply prev [] = True"
| "follows_reply prev (e # es) =
     ((is_staged_put e \<longrightarrow> reply_succeeded_for prev e) \<and> follows_reply (Some e) es)"










subsection \<open>Sample data for the traffic\<close>

definition task_seven :: task where
  "task_seven = blank_task\<lparr>task_id := 7, reply_done := ''Done, thanks.''\<rparr>"

definition ann :: contact where
  "ann = \<lparr>name = Some ''Ann Lee'', email = ''ann@example.org''\<rparr>"

definition body_with :: "task list \<Rightarrow> body" where
  "body_with ts =
     \<lparr>http_status = ''200'', http_status_text = ''OK'', is_json = True, body_tasks = ts,
      body_error = [], body_url = [], body_message = [], body_scanned = [],
      body_summary_status = [], body_sla_days = None\<rparr>"

text \<open>A backend that answers every request with an ok status and the snapshot \<open>[task_seven]\<close>.\<close>

definition net_ok :: "nat \<Rightarrow> response" where
  "net_ok n = Response True (body_with [task_seven])"

text \<open>A backend whose first snapshot holds task 7 and whose later ones are empty.\<close>

definition net_stale :: "nat \<Rightarrow> response" where
  "net_stale n = Response True (body_with (if n = 0 then [task_seven] else []))"

text \<open>A backend that answers every request with an error status, and a network that is down.\<close>

definition refusal :: body where
  "refusal = (body_with [])\<lparr>http_status := ''500'', http_status_text := ''Internal Server Error''\<rparr>"

definition net_refuse :: "nat \<Rightarrow> response" where
  "net_refuse n = Response False refusal"

definition net_down :: "nat \<Rightarrow> response" where
  "net_down n = NetworkError ''Failed to fetch''"

text \<open>The task modal open on task 7 with a delegation to Ann staged and a draft in the reply box.\<close>

definition staged_page :: page where
  "staged_page =
     initial_page\<lparr>allTasks := [task_seven], selectedReplyType := Some ''delegate'',
       selectedDelegate := Some ann,
       pendingTaskUpdate := Some (Delegation ''waiting_for'' (Some ''Ann Lee'')),
       currentTaskId := Some 7, modalTaskReply := ''Hi Ann, please handle this.''\<rparr>"

text \<open>
  The task modal open on task 7 after a first fetch, with a reply typed and nothing
  staged; and that page after \<open>sendReply\<close> has issued its \<open>POST\<close> and, while the answer is
  awaited, the user has picked \<open>delegate\<close>, selected Ann and confirmed.
\<close>

definition reply_typed :: page where
  "reply_typed = (openTaskModal 7 (getTasks net_ok initial_page))\<lparr>modalTaskReply := ''On it.''\<rparr>"

definition staged_in_flight :: page where
  "staged_in_flight =
     confirmDelegation
       (selectContact ann
          (copyReply net_ok (Some 7) ''delegate'' (fst (sendReply_begin net_ok reply_typed))))"


section \<open>news.js: playSummary and stopSpeaking\<close>

text \<open>
  The state of the audio player: the module variable \<open>currentAudio\<close> (an \<open>Audio\<close> object,
  named by the order of its creation), the buttons that carry the class \<open>playing\<close>, and
  the \<open>Audio\<close> objects that sound (\<open>play()\<close> was called on them and they were neither
  paused nor came to an end). \<open>started_by\<close> records the closures: the handlers
  \<open>onended\<close>, \<open>onerror\<close> and the \<open>catch\<close> of \<open>play()\<close> installed on an \<open>Audio\<close> object call
  \<open>stopSpeaking(btnEl)\<close> with the button that created it.
\<close>

record player =
  currentAudio :: "nat option"
  playing :: "nat set"
  sounding :: "nat set"
  created :: nat
  started_by :: "nat \<rightharpoonup> nat"

definition initial_player :: player where
  "initial_player =
     \<lparr>currentAudio = None, playing = {}, sounding = {}, created = 0, started_by = Map.empty\<rparr>"

text \<open>
  \<open>stopSpeaking(btnEl)\<close>: pause and drop the current audio, then reset the button passed,
  or without one every button that carries \<open>playing\<close>.
\<close>

definition stopSpeaking :: "nat option \<Rightarrow> player \<Rightarrow> player" where
  "stopSpeaking btnEl s =
     (let s1 = (case currentAudio s of
                  None \<Rightarrow> s
                | Some a \<Rightarrow> s\<lparr>currentAudio := None, sounding := sounding s - {a}\<rparr>);
          targets = (case btnEl of Some b \<Rightarrow> {b} | None \<Rightarrow> playing s1)
      in s1\<lparr>playing := playing s1 - targets\<rparr>)"

text \<open>The second half of \<open>playSummary\<close>: \<open>new Audio\<close>, the button styled, \<open>play()\<close>, the handlers.\<close>

definition startAudio :: "nat \<Rightarrow> player \<Rightarrow> player" where
  "startAudio btnEl s =
     s\<lparr>currentAudio := Some (created s), playing := insert btnEl (playing s),
       sounding := insert (created s) (sounding s), created := Suc (created s),
       started_by := (started_by s)(created s \<mapsto> btnEl)\<rparr>"

definition playSummary :: "nat \<Rightarrow> player \<Rightarrow> player" where
  "playSummary btnEl s =
     (if btnEl \<in> playing s then stopSpeaking (Some btnEl) s
      else startAudio btnEl (if currentAudio s \<noteq> None then stopSpeaking None s else s))"

text \<open>
  What happens on the page: a click on a Listen button, or one of the three
  notifications of an \<open>Audio\<close> object (it ended, it failed, its \<open>play()\<close> was rejected).
  Each notification runs the handler installed at creation; the audio it comes from no
  longer sounds. The handlers stay installed on an \<open>Audio\<close> object after
  \<open>stopSpeaking\<close> has paused and dropped it. (The messages the error handlers show are
  left out.)
\<close>

datatype audio_event = Click nat | Ended nat | Errored nat | PlayRejected nat

definition notify :: "nat \<Rightarrow> player \<Rightarrow> player" where
  "notify a s =
     (case started_by s a of
        None \<Rightarrow> s
      | Some btnEl \<Rightarrow> stopSpeaking (Some btnEl) (s\<lparr>sounding := sounding s - {a}\<rparr>))"

fun react :: "player \<Rightarrow> audio_event \<Rightarrow> player" where
  "react s (Click btnEl) = playSummary btnEl s"
| "react s (Ended a) = notify a s"
| "react s (Errored a) = notify a s"
| "react s (PlayRejected a) = notify a s"

definition play_run :: "player \<Rightarrow> audio_event list \<Rightarrow> player" where
  "play_run s evs = foldl react s evs"

subsection \<open>Vocabulary for the properties of the player\<close>

definition at_most_one :: "nat set \<Rightarrow> bool" where
  "at_most_one S \<longleftrightarrow> (\<forall>x \<in> S. \<forall>y \<in> S. x = y)"

text \<open>Every audio that sounds is the one held in \<open>currentAudio\<close>.\<close>

definition only_current_sounds :: "player \<Rightarrow> bool" where
  "only_current_sounds s \<longleftrightarrow>
     sounding s \<subseteq> (case currentAudio s of None \<Rightarrow> {} | Some a \<Rightarrow> {a})"

text \<open>
  \<open>timely s evs\<close>: in the sequence \<open>evs\<close>, run from \<open>s\<close>, every notification comes from
  the audio that is the current one at that moment.
\<close>

fun source :: "audio_event \<Rightarrow> nat option" where
  "source (Click btnEl) = None"
| "source (Ended a) = Some a"
| "source (Errored a) = Some a"
| "source (PlayRejected a) = Some a"

fun timely :: "player \<Rightarrow> audio_event list \<Rightarrow> bool" where
  "timely s [] = True"
| "timely s (e # es) =
     ((source e = None \<or> source e = currentAudio s) \<and> timely (react s e) es)"

text \<open>The buttons styled \<open>playing\<close> are at most the one that started the current audio.\<close>

definition styled_is_current :: "player \<Rightarrow> bool" where
  "styled_is_current s \<longleftrightarrow>
     (case currentAudio s of
        None \<Rightarrow> playing s = {}
      | Some a \<Rightarrow> (case started_by s a of None \<Rightarrow> False | Some b \<Rightarrow> playing s \<subseteq> {b}))"

section \<open>SLA classification\<close>

lemma getSLAStatus_days:
  "daysElapsed (getSLAStatus (Instant r) now (Num s)) = Num ((now - r) div MS_PER_DAY)"
  by (simp add: getSLAStatus_def Let_def)

lemma getSLAStatus_status:
  "sla_status (getSLAStatus (Instant r) now (Num s)) =
     (if (now - r) div MS_PER_DAY > s then ''Overdue''
      else if (now - r) div MS_PER_DAY \<ge> s - 1 then ''At Risk''
      else ''On Time'')"
  by (simp add: getSLAStatus_def Let_def)

text \<open>
  Without a timestamp the badge is \<open>Unknown\<close>; with one that \<open>new Date\<close> cannot read, the
  day count is NaN, no comparison holds, and the badge is \<open>On Time\<close>.
\<close>

lemma getSLAStatus_no_date:
  "sla_status (getSLAStatus Absent now slaDays) = ''Unknown''
   \<and> daysElapsed (getSLAStatus Unparsable now slaDays) = NaN
   \<and> sla_status (getSLAStatus Unparsable now slaDays) = ''On Time''"
  by (simp add: getSLAStatus_def Let_def)

text \<open>
  C1. For every reference instant \<open>r\<close>, clock reading \<open>now\<close> and configured number of
  days \<open>s\<close>, \<open>getSLAStatus\<close> reports as days elapsed the floor of \<open>(now - r)\<close> divided
  by the milliseconds of a day, and the status is \<open>On Time\<close> when that count is below
  \<open>s - 1\<close>, \<open>At Risk\<close> when it lies in the closed interval from \<open>s - 1\<close> to \<open>s\<close>, and
  \<open>Overdue\<close> when it exceeds \<open>s\<close>. With \<open>s = 4\<close>: three days elapsed give \<open>At Risk\<close>,
  five give \<open>Overdue\<close>, one gives \<open>On Time\<close>.
\<close>

theorem getSLAStatus_classification:
  "daysElapsed (getSLAStatus (Instant r) now (Num s)) = Num ((now - r) div (1000 * 60 * 60 * 24))
   \<and> ((now - r) div (1000 * 60 * 60 * 24) < s - 1 \<longrightarrow>
        sla_status (getSLAStatus (Instant r) now (Num s)) = ''On Time'')
   \<and> (s - 1 \<le> (now - r) div (1000 * 60 * 60 * 24) \<and> (now - r) div (1000 * 60 * 60 * 24) \<le> s \<longrightarrow>
        sla_status (getSLAStatus (Instant r) now (Num s)) = ''At Risk'')
   \<and> ((now - r) div (1000 * 60 * 60 * 24) > s \<longrightarrow>
        sla_status (getSLAStatus (Instant r) now (Num s)) = ''Overdue'')
   \<and> ((now - r) div (1000 * 60 * 60 * 24) = 3 \<longrightarrow>
        sla_status (getSLAStatus (Instant r) now (Num 4)) = ''At Risk'')
   \<and> ((now - r) div (1000 * 60 * 60 * 24) = 5 \<longrightarrow>
        sla_status (getSLAStatus (Instant r) now (Num 4)) = ''Overdue'')
   \<and> ((now - r) div (1000 * 60 * 60 * 24) = 1 \<longrightarrow>
        sla_status (getSLAStatus (Instant r) now (Num 4)) = ''On Time'')"
  by (simp add: getSLAStatus_days getSLAStatus_status MS_PER_DAY_def)

text \<open>
  The three examples of the claim at concrete instants: a mail received at time 0, read
  three days and five milliseconds later, exactly five days later, and one day later.
\<close>

theorem getSLAStatus_classification_witness:
  "daysElapsed (getSLAStatus (Instant 0) 259200005 (Num 4)) = Num 3
   \<and> sla_status (getSLAStatus (Instant 0) 259200005 (Num 4)) = ''At Risk''
   \<and> sla_status (getSLAStatus (Instant 0) 432000000 (Num 4)) = ''Overdue''
   \<and> sla_status (getSLAStatus (Instant 0) 86400000 (Num 4)) = ''On Time''"
  using getSLAStatus_classification [of 0 259200005 4]
    getSLAStatus_classification [of 0 432000000 4]
    getSLAStatus_classification [of 0 86400000 4]
  by simp

section \<open>Properties of renderTasks\<close>

subsection \<open>The buckets as filters of the snapshot\<close>

lemma foldl_place:
  "foldl (place fp fs) c tasks =
     \<lparr>quick = quick c @ filter (\<lambda>t. passes fp fs t \<and> triage_category t \<noteq> ''waiting_for''
                                  \<and> triage_category t = ''quick_action'') tasks,
      deep = deep c @ filter (\<lambda>t. passes fp fs t \<and> triage_category t \<noteq> ''waiting_for''
                                  \<and> triage_category t \<noteq> ''quick_action'') tasks,
      waiting = waiting c @ filter (\<lambda>t. passes fp fs t \<and> triage_category t = ''waiting_for'') tasks,
      todo = todo c @ filter (\<lambda>t. passes fp fs t \<and> status t = ''new'') tasks,
      doing = doing c @ filter (\<lambda>t. passes fp fs t \<and> status t = ''in_progress'') tasks,
      paused = paused c @ filter (\<lambda>t. passes fp fs t \<and> status t = ''paused'') tasks\<rparr>"
proof (induction tasks arbitrary: c)
  case Nil
  show ?case by simp
next
  case (Cons t ts)
  show ?case
    unfolding foldl.simps Cons.IH
    by (simp add: place_def passes_def Let_def)
qed

lemma set_insert_by: "set (insert_by c x ys) = insert x (set ys)"
  by (induction ys) auto

lemma set_array_sort: "set (array_sort c xs) = set xs"
  by (induction xs) (simp_all add: set_insert_by)

lemma bucket_sets:
  "set (quick (renderTasks tasks fp fs)) =
     {t \<in> set tasks. passes fp fs t \<and> triage_category t \<noteq> ''waiting_for''
        \<and> triage_category t = ''quick_action''}"
  "set (deep (renderTasks tasks fp fs)) =
     {t \<in> set tasks. passes fp fs t \<and> triage_category t \<noteq> ''waiting_for''
        \<and> triage_category t \<noteq> ''quick_action''}"
  "set (waiting (renderTasks tasks fp fs)) =
     {t \<in> set tasks. passes fp fs t \<and> triage_category t = ''waiting_for''}"
  "set (todo (renderTasks tasks fp fs)) = {t \<in> set tasks. passes fp fs t \<and> status t = ''new''}"
  "set (doing (renderTasks tasks fp fs)) =
     {t \<in> set tasks. passes fp fs t \<and> status t = ''in_progress''}"
  "set (paused (renderTasks tasks fp fs)) =
     {t \<in> set tasks. passes fp fs t \<and> status t = ''paused''}"
  by (simp_all add: renderTasks_def Let_def foldl_place empty_cols_def set_array_sort)

subsection \<open>Closed and archived tasks\<close>

text \<open>
  C3. Whatever the snapshot and whatever the two filter values, a task whose status is
  \<open>closed\<close> or \<open>archived\<close> is in none of the six buckets \<open>quick\<close>, \<open>deep\<close>, \<open>waiting\<close>,
  \<open>todo\<close>, \<open>doing\<close>, \<open>paused\<close> that \<open>renderTasks\<close> computes.
\<close>

theorem closed_archived_in_no_bucket:
  "status t = ''closed'' \<or> status t = ''archived'' \<Longrightarrow>
     t \<notin> set (quick (renderTasks tasks fp fs)) \<and> t \<notin> set (deep (renderTasks tasks fp fs))
     \<and> t \<notin> set (waiting (renderTasks tasks fp fs)) \<and> t \<notin> set (todo (renderTasks tasks fp fs))
     \<and> t \<notin> set (doing (renderTasks tasks fp fs)) \<and> t \<notin> set (paused (renderTasks tasks fp fs))"
  by (auto simp: bucket_sets passes_def)

text \<open>
  A snapshot of an open, a closed and an archived task, filtered by the project they
  share: the closed one is in no bucket.
\<close>

theorem closed_archived_in_no_bucket_witness:
  "status task_closed = ''closed''
   \<and> task_closed \<in> set [blank_task, task_closed, task_archived]
   \<and> task_closed \<notin> set (quick (renderTasks [blank_task, task_closed, task_archived] (Some ''Metro'') None))
   \<and> task_closed \<notin> set (deep (renderTasks [blank_task, task_closed, task_archived] (Some ''Metro'') None))
   \<and> task_closed \<notin> set (waiting (renderTasks [blank_task, task_closed, task_archived] (Some ''Metro'') None))
   \<and> task_closed \<notin> set (todo (renderTasks [blank_task, task_closed, task_archived] (Some ''Metro'') None))
   \<and> task_closed \<notin> set (doing (renderTasks [blank_task, task_closed, task_archived] (Some ''Metro'') None))
   \<and> task_closed \<notin> set (paused (renderTasks [blank_task, task_closed, task_archived] (Some ''Metro'') None))"
  using closed_archived_in_no_bucket
    [of task_closed "[blank_task, task_closed, task_archived]" "Some ''Metro''" None]
  by (simp add: task_closed_def)

subsection \<open>One bucket per view\<close>

text \<open>
  Where \<open>renderTasks\<close> puts a task that reaches the bucket assignments, for any status
  and category: the category chain ends in a fallback branch (\<open>deep\<close>), the status chain
  has three branches and no fallback.
\<close>

lemma renderTasks_buckets:
  assumes "t \<in> set tasks" and "status t \<noteq> ''closed''" and "status t \<noteq> ''archived''"
    and "truthy fp \<longrightarrow> Some (project t) = fp" and "truthy fs \<longrightarrow> Some (sender t) = fs"
  shows "exec_buckets_holding (renderTasks tasks fp fs) t = 1
     \<and> (t \<in> set (waiting (renderTasks tasks fp fs)) \<longleftrightarrow> triage_category t = ''waiting_for'')
     \<and> (t \<in> set (quick (renderTasks tasks fp fs)) \<longleftrightarrow> triage_category t = ''quick_action'')
     \<and> (t \<in> set (deep (renderTasks tasks fp fs)) \<longleftrightarrow>
           triage_category t \<noteq> ''waiting_for'' \<and> triage_category t \<noteq> ''quick_action'')
     \<and> (t \<in> set (todo (renderTasks tasks fp fs)) \<longleftrightarrow> status t = ''new'')
     \<and> (t \<in> set (doing (renderTasks tasks fp fs)) \<longleftrightarrow> status t = ''in_progress'')
     \<and> (t \<in> set (paused (renderTasks tasks fp fs)) \<longleftrightarrow> status t = ''paused'')
     \<and> kanban_buckets_holding (renderTasks tasks fp fs) t =
          (if status t = ''new'' \<or> status t = ''in_progress'' \<or> status t = ''paused''
           then 1 else 0)"
proof -
  have p: "passes fp fs t" using assms by (simp add: passes_def)
  show ?thesis using p assms(1)
    by (auto simp: bucket_sets exec_buckets_holding_def kanban_buckets_holding_def)
qed

text \<open>
  C4. A task of the snapshot whose status is one of the five, that is neither closed
  nor archived and passes the project and sender filters, is in exactly one of the
  three executive buckets and in exactly one of the three kanban buckets: \<open>waiting\<close> for
  the category \<open>waiting_for\<close>, \<open>quick\<close> for \<open>quick_action\<close>, \<open>deep\<close> for every other
  category, recognized or not; \<open>todo\<close> for the status \<open>new\<close>, \<open>doing\<close> for \<open>in_progress\<close>,
  \<open>paused\<close> for \<open>paused\<close>.
\<close>

theorem renderTasks_one_bucket_per_view:
  assumes "t \<in> set tasks" and "status t \<in> set task_statuses"
    and "status t \<noteq> ''closed''" and "status t \<noteq> ''archived''"
    and "truthy fp \<longrightarrow> Some (project t) = fp" and "truthy fs \<longrightarrow> Some (sender t) = fs"
  shows "exec_buckets_holding (renderTasks tasks fp fs) t = 1
     \<and> kanban_buckets_holding (renderTasks tasks fp fs) t = 1
     \<and> (t \<in> set (waiting (renderTasks tasks fp fs)) \<longleftrightarrow> triage_category t = ''waiting_for'')
     \<and> (t \<in> set (quick (renderTasks tasks fp fs)) \<longleftrightarrow> triage_category t = ''quick_action'')
     \<and> (t \<in> set (deep (renderTasks tasks fp fs)) \<longleftrightarrow>
           triage_category t \<noteq> ''waiting_for'' \<and> triage_category t \<noteq> ''quick_action'')
     \<and> (t \<in> set (todo (renderTasks tasks fp fs)) \<longleftrightarrow> status t = ''new'')
     \<and> (t \<in> set (doing (renderTasks tasks fp fs)) \<longleftrightarrow> status t = ''in_progress'')
     \<and> (t \<in> set (paused (renderTasks tasks fp fs)) \<longleftrightarrow> status t = ''paused'')"
proof -
  have s: "status t = ''new'' \<or> status t = ''in_progress'' \<or> status t = ''paused''"
    using assms(2,3,4) by (auto simp: task_statuses_def)
  show ?thesis
    using renderTasks_buckets [OF assms(1) assms(3) assms(4) assms(5) assms(6)] s by simp
qed

text \<open>
  A paused task of an unrecognized category, in a snapshot with a new task and a closed
  one and under a project filter: it is in \<open>deep\<close> and in \<open>paused\<close>, and in no other bucket.
\<close>

theorem renderTasks_one_bucket_per_view_witness:
  "exec_buckets_holding
      (renderTasks [blank_task, task_paused, task_closed] (Some ''Metro'') None) task_paused = 1
   \<and> kanban_buckets_holding
      (renderTasks [blank_task, task_paused, task_closed] (Some ''Metro'') None) task_paused = 1
   \<and> task_paused \<in> set (deep (renderTasks [blank_task, task_paused, task_closed] (Some ''Metro'') None))
   \<and> task_paused \<in> set (paused (renderTasks [blank_task, task_paused, task_closed] (Some ''Metro'') None))
   \<and> task_paused \<notin> set (todo (renderTasks [blank_task, task_paused, task_closed] (Some ''Metro'') None))
   \<and> task_paused \<notin> set (doing (renderTasks [blank_task, task_paused, task_closed] (Some ''Metro'') None))
   \<and> task_paused \<notin> set (quick (renderTasks [blank_task, task_paused, task_closed] (Some ''Metro'') None))
   \<and> task_paused \<notin> set (waiting (renderTasks [blank_task, task_paused, task_closed] (Some ''Metro'') None))"
proof -
  have 1: "task_paused \<in> set [blank_task, task_paused, task_closed]"
    by simp
  have 2: "status task_paused = ''paused'' \<and> triage_category task_paused = ''review''
     \<and> project task_paused = ''Metro''"
    by (simp add: task_paused_def blank_task_def)
  have 3: "status task_paused \<in> set task_statuses"
    by (simp add: task_paused_def blank_task_def task_statuses_def)
  have 4: "truthy (Some ''Metro'') \<longrightarrow> Some (project task_paused) = Some ''Metro''"
    by (simp add: task_paused_def blank_task_def)
  have 5: "truthy None \<longrightarrow> Some (sender task_paused) = None"
    by simp
  show ?thesis
    using renderTasks_one_bucket_per_view
        [of task_paused "[blank_task, task_paused, task_closed]" "Some ''Metro''" None]
      1 2 3 4 5
    by simp
qed

subsection \<open>Order within a bucket\<close>

lemma rank_plain: "p \<notin> set object_prototype_keys \<Longrightarrow> rank p = Number (spec_rank p)"
  by (simp add: rank_def pMap_def spec_rank_def)

lemma SortCompare_sortFn:
  assumes "well_keyed a" "well_keyed b"
  shows "SortCompare sortFn a b \<le> 0 \<longleftrightarrow> ordered a b"
proof -
  obtain ta tb where t: "created_at a = Instant ta" "created_at b = Instant tb"
    using assms by (auto simp: well_keyed_def)
  have r: "rank (priority a) = Number (spec_rank (priority a))"
    "rank (priority b) = Number (spec_rank (priority b))"
    using assms by (simp_all add: well_keyed_def rank_plain)
  show ?thesis
    by (auto simp: SortCompare_def sortFn_def Let_def r t ordered_def created_ms_def)
qed

lemma ordered_total: "ordered a b \<or> ordered b a"
  by (auto simp: ordered_def)

lemma ordered_trans: "ordered a b \<Longrightarrow> ordered b c \<Longrightarrow> ordered a c"
  by (auto simp: ordered_def)

lemma sorted_insert_by:
  assumes "well_keyed x" "\<forall>y \<in> set ys. well_keyed y" "sorted_wrt ordered ys"
  shows "sorted_wrt ordered (insert_by sortFn x ys)"
  using assms
proof (induction ys)
  case Nil
  then show ?case by simp
next
  case (Cons y ys)
  show ?case
  proof (cases "SortCompare sortFn x y \<le> 0")
    case True
    then have xy: "ordered x y" using Cons.prems by (simp add: SortCompare_sortFn)
    have "\<forall>z \<in> set ys. ordered x z"
      using xy Cons.prems(3) by (auto intro: ordered_trans)
    then show ?thesis using True xy Cons.prems(3) by simp
  next
    case False
    then have "\<not> ordered x y" using Cons.prems by (simp add: SortCompare_sortFn)
    then have yx: "ordered y x" using ordered_total by blast
    have "sorted_wrt ordered (insert_by sortFn x ys)"
      using Cons by simp
    then show ?thesis using False yx Cons.prems(3) by (simp add: set_insert_by)
  qed
qed

lemma sorted_array_sort:
  "\<forall>y \<in> set xs. well_keyed y \<Longrightarrow> sorted_wrt ordered (array_sort sortFn xs)"
  by (induction xs) (simp_all add: sorted_insert_by set_array_sort)

text \<open>
  When every task of the snapshot has a readable creation date and a priority that does
  not name a member of \<open>Object.prototype\<close>, each bucket is in the order the
  specification gives: rank descending, then creation time descending.
\<close>

lemma renderTasks_sorted:
  assumes "\<forall>t \<in> set tasks. well_keyed t"
  shows "sorted_wrt ordered (quick (renderTasks tasks fp fs))
       \<and> sorted_wrt ordered (deep (renderTasks tasks fp fs))
       \<and> sorted_wrt ordered (waiting (renderTasks tasks fp fs))
       \<and> sorted_wrt ordered (todo (renderTasks tasks fp fs))
       \<and> sorted_wrt ordered (doing (renderTasks tasks fp fs))
       \<and> sorted_wrt ordered (paused (renderTasks tasks fp fs))"
  using assms
  by (simp add: renderTasks_def Let_def foldl_place empty_cols_def sorted_array_sort)

text \<open>
  C2, at the input where the code departs from it. The priority \<open>constructor\<close> is
  unrecognized, so the specification ranks it 1, below \<open>high\<close>. The code reads
  \<open>pMap['constructor']\<close>, finds the inherited member, and \<open>sortFn\<close> returns NaN for the
  pair; \<open>sort\<close> takes NaN for 0 and, being stable, keeps the snapshot order: the
  high-priority task stays behind the unrecognized one.
\<close>

theorem sort_keeps_high_behind_inherited_key:
  "spec_rank (priority task_high) > spec_rank (priority task_inherited)
   \<and> rank (priority task_inherited) = Inherited ''constructor''
   \<and> sortFn task_inherited task_high = NaN
   \<and> sortFn task_high task_inherited = NaN
   \<and> deep (renderTasks [task_inherited, task_high] None None) = [task_inherited, task_high]"
  by (simp add: task_inherited_def task_high_def blank_task_def spec_rank_def renderTasks_def
      place_def empty_cols_def Let_def sortFn_def rank_def pMap_def object_prototype_keys_def
      SortCompare_def)

section \<open>Properties of escapeCSV\<close>

lemma replace_newlines_free: "LF \<notin> set (replace_newlines s) \<and> CR \<notin> set (replace_newlines s)"
  by (induction s rule: replace_newlines.induct) (auto simp: LF_def CR_def)

lemma double_quotes_free:
  "LF \<notin> set s \<and> CR \<notin> set s \<Longrightarrow> LF \<notin> set (double_quotes s) \<and> CR \<notin> set (double_quotes s)"
  by (induction s) (auto simp: LF_def CR_def DQUOTE_def)

text \<open>No line break survives in an exported field.\<close>

lemma escapeCSV_no_newline: "LF \<notin> set (escapeCSV s) \<and> CR \<notin> set (escapeCSV s)"
  using replace_newlines_free [of s] double_quotes_free [of "replace_newlines s"]
  by (auto simp: escapeCSV_def Let_def LF_def CR_def DQUOTE_def)

text \<open>A field with a comma is wrapped in quotes, its own quotes doubled.\<close>

lemma escapeCSV_comma:
  "COMMA \<in> set (replace_newlines s) \<Longrightarrow>
     escapeCSV s = [DQUOTE] @ double_quotes (replace_newlines s) @ [DQUOTE]"
  by (auto simp: escapeCSV_def Let_def)

text \<open>
  C5, at the input where the code departs from it. The wrapping and the doubling are
  guarded by \<open>newStr.includes(',')\<close> alone: a field that holds quotes and no comma is
  written as it is, neither wrapped nor with its quotes doubled.
\<close>

theorem escapeCSV_leaves_quoted_field:
  "DQUOTE \<in> set quoted_field \<and> COMMA \<notin> set quoted_field
   \<and> escapeCSV quoted_field = quoted_field
   \<and> escapeCSV quoted_field \<noteq> [DQUOTE] @ double_quotes quoted_field @ [DQUOTE]"
  by (simp add: quoted_field_def escapeCSV_def DQUOTE_def COMMA_def CR_def LF_def)

section \<open>Properties of the traffic\<close>

lemmas effect_defs = fetch_def showMessage_def emit_def getTasks_def getTasks_settle_def
  updateTask_def

lemmas action_defs = openTaskModal_def copyReply_def searchContacts_def
  openDelegateModal_def selectContact_def confirmDelegation_def updateTaskStatus_def
  updateTaskCategory_def openDeleteModal_def confirmDelete_def sendReply_def

lemmas sample_defs = task_seven_def blank_task_def ann_def body_with_def refusal_def net_ok_def
  net_stale_def net_refuse_def net_down_def staged_page_def initial_page_def

lemmas white_space_defs = white_space_1_def white_space_2_def white_space_3_def

subsection \<open>The staged delegation\<close>

lemma follows_reply_None: "follows_reply None ys \<Longrightarrow> follows_reply prev ys"
  by (cases ys) auto

lemma follows_reply_append:
  "follows_reply prev xs \<Longrightarrow> follows_reply None ys \<Longrightarrow> follows_reply prev (xs @ ys)"
  by (induction xs arbitrary: prev) (auto intro: follows_reply_None)

text \<open>
  Taken one at a time, each running to its end before the next begins, the actions keep
  to the order the comments describe: no action but \<open>sendReply\<close> issues a \<open>PUT\<close> of a
  staged delegation, and \<open>sendReply\<close> issues it only directly after its reply \<open>POST\<close> was
  answered with an ok status.
\<close>

lemma step_quiet:
  "a \<noteq> SendReply \<Longrightarrow>
     \<exists>evs. log (step net p a) = log p @ evs \<and> follows_reply None evs
           \<and> filter is_staged_put evs = []"
  by (cases a)
    (auto simp: effect_defs action_defs Let_def split: response.splits option.splits)



lemma confirmDelegation_stages:
  "selectedDelegate p = Some c \<Longrightarrow> currentTaskId p = Some i \<Longrightarrow>
   name c \<noteq> None \<or> (\<exists>t. find_task (allTasks p) i = Some t \<and> reply_delegate t \<noteq> []) \<Longrightarrow>
     pendingTaskUpdate (confirmDelegation p) = Some (Delegation ''waiting_for'' (name c))"
  by (auto simp: confirmDelegation_def effect_defs Let_def split: option.splits)



text \<open>
  C8 fails in the code. In the open modal of task 7 the user types a reply and sends it;
  nothing is staged. While the \<open>POST\<close> is awaited the user picks \<open>delegate\<close>, selects Ann
  and confirms: the delegation is staged and its draft fills the reply box. The answer to
  the \<open>POST\<close> arrives, \<open>sendReply\<close> goes on after its \<open>await\<close>, reads \<open>pendingTaskUpdate\<close> and
  issues the \<open>PUT\<close> of the delegation. The only reply sent is the one typed before; the
  delegation draft was never sent, and no send followed the staging.
\<close>

theorem delegation_sent_without_send:
  "pendingTaskUpdate reply_typed = None
   \<and> snd (sendReply_begin net_ok reply_typed) = Some (7, net_ok 1)
   \<and> new_events reply_typed (fst (sendReply_begin net_ok reply_typed))
      = [Fetch (PostReply 7 ''On it.'' None) (net_ok 1)]
   \<and> pendingTaskUpdate staged_in_flight = Some (Delegation ''waiting_for'' (Some ''Ann Lee''))
   \<and> requests (new_events reply_typed (sendReply_resume net_ok 7 (net_ok 1) staged_in_flight))
      = [PostReply 7 ''On it.'' None, GetCircle [],
         PutTask 7 (Delegation ''waiting_for'' (Some ''Ann Lee'')), GetTasks, GetTasks]"
  by (simp add: reply_typed_def staged_in_flight_def sendReply_begin_def sendReply_resume_def
      effect_defs action_defs sample_defs white_space_defs Let_def new_events_def
      first_word_def LF_def)

subsection \<open>Discarding the staged delegation\<close>




















subsection \<open>The mutation round trip\<close>













subsection \<open>Rejected fetches\<close>






section \<open>Properties of the audio player\<close>

lemma stopSpeaking_sounds:
  "only_current_sounds s \<Longrightarrow> only_current_sounds (stopSpeaking btnEl s)"
  by (auto simp: only_current_sounds_def stopSpeaking_def Let_def split: option.splits)

lemma stopSpeaking_silent:
  "only_current_sounds s \<Longrightarrow> sounding (stopSpeaking btnEl s) = {}"
  by (auto simp: only_current_sounds_def stopSpeaking_def Let_def split: option.splits)

lemma react_sounds: "only_current_sounds s \<Longrightarrow> only_current_sounds (react s e)"
proof (cases e)
  case (Click b)
  assume s: "only_current_sounds s"
  have "currentAudio s = None \<Longrightarrow> sounding s = {}"
    using s by (auto simp: only_current_sounds_def)
  then show ?thesis
    using Click s stopSpeaking_sounds [OF s] stopSpeaking_silent [OF s, of None]
    by (auto simp: playSummary_def startAudio_def only_current_sounds_def)
next
  case (Ended a)
  assume s: "only_current_sounds s"
  then have "only_current_sounds (s\<lparr>sounding := sounding s - {a}\<rparr>)"
    by (auto simp: only_current_sounds_def split: option.splits)
  then show ?thesis using Ended s
    by (auto simp: notify_def stopSpeaking_sounds split: option.splits)
next
  case (Errored a)
  assume s: "only_current_sounds s"
  then have "only_current_sounds (s\<lparr>sounding := sounding s - {a}\<rparr>)"
    by (auto simp: only_current_sounds_def split: option.splits)
  then show ?thesis using Errored s
    by (auto simp: notify_def stopSpeaking_sounds split: option.splits)
next
  case (PlayRejected a)
  assume s: "only_current_sounds s"
  then have "only_current_sounds (s\<lparr>sounding := sounding s - {a}\<rparr>)"
    by (auto simp: only_current_sounds_def split: option.splits)
  then show ?thesis using PlayRejected s
    by (auto simp: notify_def stopSpeaking_sounds split: option.splits)
qed

lemma play_run_sounds: "only_current_sounds s \<Longrightarrow> only_current_sounds (play_run s evs)"
  unfolding play_run_def
  by (induction evs arbitrary: s) (simp_all add: react_sounds)

lemma react_styled:
  "styled_is_current s \<Longrightarrow> source e = None \<or> source e = currentAudio s \<Longrightarrow>
     styled_is_current (react s e)"
  by (cases e)
    (auto simp: styled_is_current_def playSummary_def startAudio_def stopSpeaking_def notify_def
      Let_def split: option.splits if_splits)

lemma play_run_styled:
  "styled_is_current s \<Longrightarrow> timely s evs \<Longrightarrow> styled_is_current (play_run s evs)"
  unfolding play_run_def
  by (induction evs arbitrary: s) (simp_all add: react_styled)

lemma styled_at_most_one: "styled_is_current s \<Longrightarrow> at_most_one (playing s)"
  by (auto simp: styled_is_current_def at_most_one_def split: option.splits)

lemma switch_audio:
  assumes "currentAudio s = Some a" "b \<notin> playing s"
  shows "playSummary b s = startAudio b (stopSpeaking None s)"
    and "currentAudio (stopSpeaking None s) = None"
    and "a \<notin> sounding (stopSpeaking None s)"
    and "playing (stopSpeaking None s) = {}"
    and "playing (playSummary b s) = {b}"
    and "currentAudio (playSummary b s) = Some (created s)"
  using assms
  by (auto simp: playSummary_def startAudio_def stopSpeaking_def Let_def)

text \<open>
  What holds of the code: whatever the order of clicks and notifications, an audio that
  sounds is the one held in \<open>currentAudio\<close> (\<open>play_run_sounds\<close>), and switching from one
  summary to another stops the first audio and resets every styled button before the
  second starts (\<open>switch_audio\<close>). At most one button is styled as long as each
  notification comes from the audio that is current when it arrives
  (\<open>play_run_styled\<close>).
\<close>

text \<open>
  C9 fails in the code for a notification that comes from an audio already stopped.
  Listen on button 1, then on button 2; the first audio, paused and dropped by the
  second click, reports an error. Its handler runs \<open>stopSpeaking\<close> with button 1:
  \<open>stopSpeaking\<close> pauses the audio that is current, the second, and resets button 1, not
  the button of the audio it stopped. Button 2 stays styled \<open>playing\<close> while nothing
  sounds; a click on button 3 then finds no current audio to stop, and buttons 2 and 3
  are both styled \<open>playing\<close>.
\<close>

theorem stale_handler_leaves_two_buttons_styled:
  "playing (play_run initial_player [Click 1, Click 2]) = {2}
   \<and> sounding (play_run initial_player [Click 1, Click 2]) = {1}
   \<and> playing (play_run initial_player [Click 1, Click 2, Errored 0]) = {2}
   \<and> sounding (play_run initial_player [Click 1, Click 2, Errored 0]) = {}
   \<and> playing (play_run initial_player [Click 1, Click 2, Errored 0, Click 3]) = {2, 3}
   \<and> sounding (play_run initial_player [Click 1, Click 2, Errored 0, Click 3]) = {2}
   \<and> card (playing (play_run initial_player [Click 1, Click 2, Errored 0, Click 3])) = 2"
  by (simp add: play_run_def initial_player_def playSummary_def startAudio_def
      stopSpeaking_def notify_def Let_def insert_commute)

end
